theory Spec2Isabelle
  imports Complex_Main
begin

section \<open>The product page: data model\<close>

text \<open>
  The page component of \<^verbatim>\<open>frontend/app/page.tsx\<close> keeps three pieces of React state
  (\<^verbatim>\<open>products\<close>, \<^verbatim>\<open>formData\<close>, \<^verbatim>\<open>editingId\<close>) and talks to a REST backend through an
  axios instance. The handlers are modelled as state transformers over a world that
  holds the three state cells, the state of the backend, and the trace of everything the
  handlers did to the outside (requests issued, console output).
\<close>

text \<open>
  \<^verbatim>\<open>interface Product { id: number; name: string; description: string | null; price: string }\<close>
  Identifiers are the integer keys the backend assigns.
\<close>

record Product =
  product_id :: int
  product_name :: string
  product_description :: "string option"
  product_price :: string

text \<open>\<^verbatim>\<open>useState({ name: '', description: '', price: '' })\<close>\<close>

record FormData =
  name :: string
  description :: string
  price :: string

text \<open>
  A JavaScript number, as far as the page needs it: not-a-number, the two infinities
  (the flag is the sign, \<open>True\<close> for negative) and the finite values. A finite value is
  carried by the rational it denotes.
\<close>

datatype jsnumber = NaN | Infinity bool | Finite rat

text \<open>\<^verbatim>\<open>{ ...formData, price: parseFloat(formData.price) || 0 }\<close>\<close>

record Submission =
  sub_name :: string
  sub_description :: string
  sub_price :: jsnumber

text \<open>
  A request promise of axios rejects when the transport fails or when the status is
  outside the 2xx range.
\<close>

datatype error = NetworkError | BadStatus nat

datatype http_method = GET | POST | PUT | DELETE

text \<open>
  What a handler does to the outside, in order: a request handed to axios (method, URL
  relative to the base URL, body), a \<^verbatim>\<open>console.error\<close> call (message and error object), and
  the rejection of a promise nobody awaits.
\<close>

datatype event =
  Request http_method string "Submission option"
| ConsoleError string error
| UnhandledRejection error

text \<open>
  The axios instance \<^verbatim>\<open>apiClient\<close>, with the backend behind it: each method takes the
  backend's state and returns the settled promise (\<open>Inl\<close> a rejection, \<open>Inr\<close> the response
  data) with the backend's next state. Nothing is assumed about the backend.
\<close>

record 's axios =
  axios_get :: "string \<Rightarrow> 's \<Rightarrow> (error + Product list) \<times> 's"
  axios_post :: "string \<Rightarrow> Submission \<Rightarrow> 's \<Rightarrow> (error + unit) \<times> 's"
  axios_put :: "string \<Rightarrow> Submission \<Rightarrow> 's \<Rightarrow> (error + unit) \<times> 's"
  axios_delete :: "string \<Rightarrow> 's \<Rightarrow> (error + unit) \<times> 's"

record 's world =
  products :: "Product list"
  formData :: FormData
  editingId :: "int option"
  backend :: 's
  trace :: "event list"

section \<open>Asynchronous code with exceptions\<close>

text \<open>
  An \<^verbatim>\<open>async\<close> body is a function from the world to its outcome and the world it leaves:
  \<open>Inl e\<close> when the body throws \<open>e\<close> (its promise rejects), \<open>Inr v\<close> when it returns \<open>v\<close>.
  A handler is run to completion, together with the calls it starts, with no other event
  of the page in between.
\<close>

type_synonym ('s, 'a) async = "'s world \<Rightarrow> (error + 'a) \<times> 's world"

text \<open>Sequencing, \<^verbatim>\<open>const x = await m; k(x)\<close>: a throw of \<open>m\<close> skips \<open>k\<close>.\<close>

definition andThen :: "('s, 'a) async \<Rightarrow> ('a \<Rightarrow> ('s, 'b) async) \<Rightarrow> ('s, 'b) async" where
  "andThen m k = (\<lambda>w. case m w of
       (Inl e, w') \<Rightarrow> (Inl e, w')
     | (Inr v, w') \<Rightarrow> k v w')"

text \<open>\<^verbatim>\<open>try { m } catch (error) { h(error) }\<close>\<close>

definition tryCatch :: "('s, 'a) async \<Rightarrow> (error \<Rightarrow> ('s, 'a) async) \<Rightarrow> ('s, 'a) async" where
  "tryCatch m h = (\<lambda>w. case m w of
       (Inl e, w') \<Rightarrow> h e w'
     | (Inr v, w') \<Rightarrow> (Inr v, w'))"

text \<open>
  A call of an \<^verbatim>\<open>async\<close> function without \<^verbatim>\<open>await\<close>: the caller goes on whatever the
  outcome; a rejection is caught by no \<^verbatim>\<open>try\<close> of the caller and is reported by the
  runtime as unhandled.
\<close>

definition unawaited :: "('s, 'a) async \<Rightarrow> ('s, unit) async" where
  "unawaited m = (\<lambda>w. case m w of
       (Inl e, w') \<Rightarrow> (Inr (), w'\<lparr>trace := trace w' @ [UnhandledRejection e]\<rparr>)
     | (Inr v, w') \<Rightarrow> (Inr (), w'))"

definition console_error :: "string \<Rightarrow> error \<Rightarrow> ('s, unit) async" where
  "console_error msg e = (\<lambda>w. (Inr (), w\<lparr>trace := trace w @ [ConsoleError msg e]\<rparr>))"

definition setProducts :: "Product list \<Rightarrow> ('s, unit) async" where
  "setProducts v = (\<lambda>w. (Inr (), w\<lparr>products := v\<rparr>))"

definition setFormData :: "FormData \<Rightarrow> ('s, unit) async" where
  "setFormData v = (\<lambda>w. (Inr (), w\<lparr>formData := v\<rparr>))"

definition setEditingId :: "int option \<Rightarrow> ('s, unit) async" where
  "setEditingId v = (\<lambda>w. (Inr (), w\<lparr>editingId := v\<rparr>))"

text \<open>The four request methods of \<^verbatim>\<open>apiClient\<close>: the request is traced, then settled.\<close>

definition apiClient_get :: "'s axios \<Rightarrow> string \<Rightarrow> ('s, Product list) async" where
  "apiClient_get apiClient url = (\<lambda>w.
     case axios_get apiClient url (backend w) of
       (r, s') \<Rightarrow> (r, w\<lparr>backend := s', trace := trace w @ [Request GET url None]\<rparr>))"

definition apiClient_post :: "'s axios \<Rightarrow> string \<Rightarrow> Submission \<Rightarrow> ('s, unit) async" where
  "apiClient_post apiClient url body = (\<lambda>w.
     case axios_post apiClient url body (backend w) of
       (r, s') \<Rightarrow> (r, w\<lparr>backend := s', trace := trace w @ [Request POST url (Some body)]\<rparr>))"

definition apiClient_put :: "'s axios \<Rightarrow> string \<Rightarrow> Submission \<Rightarrow> ('s, unit) async" where
  "apiClient_put apiClient url body = (\<lambda>w.
     case axios_put apiClient url body (backend w) of
       (r, s') \<Rightarrow> (r, w\<lparr>backend := s', trace := trace w @ [Request PUT url (Some body)]\<rparr>))"

definition apiClient_delete :: "'s axios \<Rightarrow> string \<Rightarrow> ('s, unit) async" where
  "apiClient_delete apiClient url = (\<lambda>w.
     case axios_delete apiClient url (backend w) of
       (r, s') \<Rightarrow> (r, w\<lparr>backend := s', trace := trace w @ [Request DELETE url None]\<rparr>))"

section \<open>The built-ins the page calls\<close>

text \<open>
  The page relies on four built-ins of the language: the truthiness test of \<^verbatim>\<open>if (x)\<close>
  and \<^verbatim>\<open>x || y\<close>, the conversion of a number to text in a template literal,
  \<^verbatim>\<open>String(x)\<close>, and \<^verbatim>\<open>parseFloat\<close>. They are not code of the repository; they are written
  out here after the language standard (ECMA-262), for the types at which the page uses
  them. Strings are lists of 8-bit characters, read as code units.
\<close>

text \<open>Truthiness of a \<^verbatim>\<open>number | null\<close>: \<^verbatim>\<open>null\<close> and zero are falsy.\<close>

definition truthy_id :: "int option \<Rightarrow> bool" where
  "truthy_id v = (case v of None \<Rightarrow> False | Some i \<Rightarrow> i \<noteq> 0)"

text \<open>Truthiness of a number: not-a-number and zero are falsy.\<close>

definition truthy_number :: "jsnumber \<Rightarrow> bool" where
  "truthy_number x = (case x of NaN \<Rightarrow> False | Infinity b \<Rightarrow> True | Finite r \<Rightarrow> r \<noteq> 0)"

text \<open>\<^verbatim>\<open>x || 0\<close> on a number.\<close>

definition orZero :: "jsnumber \<Rightarrow> jsnumber" where
  "orZero x = (if truthy_number x then x else Finite 0)"

text \<open>\<^verbatim>\<open>x || ''\<close> on a \<^verbatim>\<open>string | null\<close>: \<^verbatim>\<open>null\<close> and the empty string are falsy.\<close>

definition orEmpty :: "string option \<Rightarrow> string" where
  "orEmpty x = (case x of None \<Rightarrow> [] | Some s \<Rightarrow> if s \<noteq> [] then s else [])"

text \<open>\<^verbatim>\<open>x ?? ''\<close> on a \<^verbatim>\<open>string | null\<close>: only \<^verbatim>\<open>null\<close> is replaced.\<close>

definition nullishEmpty :: "string option \<Rightarrow> string" where
  "nullishEmpty x = (case x of None \<Rightarrow> [] | Some s \<Rightarrow> s)"

text \<open>\<^verbatim>\<open>String(x)\<close> on a string is the string itself.\<close>

definition js_String :: "string \<Rightarrow> string" where
  "js_String s = s"

text \<open>
  The integers a JavaScript number holds exactly, each distinct from its neighbours
  (\<^verbatim>\<open>Number.isSafeInteger\<close>): those of magnitude at most \<open>2\<^sup>5\<^sup>3 - 1\<close>.
\<close>

definition isSafeInteger :: "int \<Rightarrow> bool" where
  "isSafeInteger i = (- (2 ^ 53) < i \<and> i < 2 ^ 53)"

text \<open>
  An integer in a template literal, \<^verbatim>\<open>${id}\<close>: its decimal digits, with a minus sign
  when negative. This is the text the language gives a safe integer, and only that:
  above \<open>2\<^sup>5\<^sup>3\<close> the language prints the shortest digits that read back as the same
  number, and from \<open>10\<^sup>2\<^sup>1\<close> on it prints an exponent. The function below is the
  language's conversion on the safe integers, and a statement about the text of an id
  holds for the source where the id is one.
\<close>

definition digitChar :: "nat \<Rightarrow> char" where
  "digitChar d = char_of (48 + d)"

fun decimalDigits :: "nat \<Rightarrow> string" where
  "decimalDigits n =
     (if n < 10 then [digitChar n] else decimalDigits (n div 10) @ [digitChar (n mod 10)])"

declare decimalDigits.simps [simp del]

definition Number_toString :: "int \<Rightarrow> string" where
  "Number_toString i =
     (if i < 0 then CHR ''-'' # decimalDigits (nat (- i)) else decimalDigits (nat i))"

text \<open>
  \<^verbatim>\<open>${editingId}\<close> for a \<^verbatim>\<open>number | null\<close>: \<^verbatim>\<open>null\<close> prints as its name, a safe integer
  as above.
\<close>

definition template_id :: "int option \<Rightarrow> string" where
  "template_id v = (case v of None \<Rightarrow> ''null'' | Some i \<Rightarrow> Number_toString i)"

subsection \<open>parseFloat\<close>

text \<open>
  \<^verbatim>\<open>parseFloat(s)\<close> strips leading white space, takes the longest prefix of the rest
  that is a decimal literal (\<^verbatim>\<open>StrDecimalLiteral\<close>: an optional sign, then \<^verbatim>\<open>Infinity\<close>, or
  digits with an optional fraction, or a fraction alone, each with an optional exponent)
  and returns its value; it returns \<^verbatim>\<open>NaN\<close> when no prefix is one.
\<close>

definition isWhiteSpace :: "char \<Rightarrow> bool" where
  "isWhiteSpace c = (c \<in> set [CHR 0x09, CHR 0x0A, CHR 0x0B, CHR 0x0C, CHR 0x0D, CHR 0x20, CHR 0xA0])"

definition isDecimalDigit :: "char \<Rightarrow> bool" where
  "isDecimalDigit c = (c \<in> set ''0123456789'')"

definition digitValue :: "char \<Rightarrow> nat" where
  "digitValue c = of_char c - 48"

definition digitsValue :: "string \<Rightarrow> nat" where
  "digitsValue ds = foldl (\<lambda>acc c. 10 * acc + digitValue c) 0 ds"

definition startsWith :: "char \<Rightarrow> string \<Rightarrow> bool" where
  "startsWith c s = (case s of [] \<Rightarrow> False | x # r \<Rightarrow> x = c)"

text \<open>
  \<^verbatim>\<open>ExponentPart\<close> at the head of \<open>s\<close>: \<^verbatim>\<open>e\<close> or \<^verbatim>\<open>E\<close>, an optional sign, digits. When
  the digits are missing the literal ends before the \<^verbatim>\<open>e\<close>, and the exponent is 0.
\<close>

definition exponentPart :: "string \<Rightarrow> int" where
  "exponentPart s =
     (if startsWith (CHR ''e'') s \<or> startsWith (CHR ''E'') s then
        (let r = tl s;
             negative = startsWith (CHR ''-'') r;
             ds = takeWhile isDecimalDigit
                    (if startsWith (CHR ''+'') r \<or> startsWith (CHR ''-'') r then tl r else r)
         in if ds = [] then 0
            else if negative then - int (digitsValue ds) else int (digitsValue ds))
      else 0)"

definition pow10 :: "int \<Rightarrow> rat" where
  "pow10 e = (if 0 \<le> e then 10 ^ nat e else 1 / 10 ^ nat (- e))"

text \<open>
  The number value of a non-negative decimal: the language rounds to the nearest binary64
  value. The rounding is modelled where it changes the kind of the result: magnitudes
  from \<open>2\<^sup>1\<^sup>0\<^sup>2\<^sup>4 - 2\<^sup>9\<^sup>7\<^sup>0\<close> on become infinite, magnitudes up to \<open>2\<^sup>-\<^sup>1\<^sup>0\<^sup>7\<^sup>5\<close> become zero. In
  between, the decimal itself stands for the binary64 value next to it.
\<close>

definition numberValue :: "rat \<Rightarrow> jsnumber" where
  "numberValue r =
     (if 2 ^ 1024 - 2 ^ 970 \<le> r then Infinity False
      else if r \<le> 1 / 2 ^ 1075 then Finite 0
      else Finite r)"

text \<open>\<^verbatim>\<open>StrUnsignedDecimalLiteral\<close>: the value of the longest prefix that is one.\<close>

definition unsignedLiteral :: "string \<Rightarrow> jsnumber" where
  "unsignedLiteral s =
     (if take 8 s = ''Infinity'' then Infinity False
      else
        (let ip = takeWhile isDecimalDigit s;
             r1 = dropWhile isDecimalDigit s;
             dot = startsWith (CHR ''.'') r1;
             fp = (if dot then takeWhile isDecimalDigit (tl r1) else []);
             r2 = (if dot then dropWhile isDecimalDigit (tl r1) else r1)
         in if ip = [] \<and> fp = [] then NaN
            else numberValue (of_nat (digitsValue (ip @ fp))
                              * pow10 (exponentPart r2 - int (length fp)))))"

definition negate :: "jsnumber \<Rightarrow> jsnumber" where
  "negate x = (case x of NaN \<Rightarrow> NaN | Infinity b \<Rightarrow> Infinity (\<not> b) | Finite r \<Rightarrow> Finite (- r))"

definition parseFloat :: "string \<Rightarrow> jsnumber" where
  "parseFloat inputString =
     (let trimmed = dropWhile isWhiteSpace inputString
      in if startsWith (CHR ''-'') trimmed then negate (unsignedLiteral (tl trimmed))
         else if startsWith (CHR ''+'') trimmed then unsignedLiteral (tl trimmed)
         else unsignedLiteral trimmed)"

section \<open>The handlers\<close>

text \<open>
  \<^verbatim>\<open>
  const fetchProducts = async () => {
    try {
      const response = await apiClient.get<Product[]>('/products/');
      setProducts(response.data);
    } catch (error) {
      console.error('Gagal mengambil data produk:', error);
    }
  };
  \<close>
\<close>

definition fetchProducts :: "'s axios \<Rightarrow> ('s, unit) async" where
  "fetchProducts apiClient =
     tryCatch
       (andThen (apiClient_get apiClient ''/products/'') (\<lambda>response. setProducts response))
       (\<lambda>e. console_error ''Gagal mengambil data produk:'' e)"

text \<open>
  \<^verbatim>\<open>const submissionData = { ...formData, price: parseFloat(formData.price) || 0 };\<close>
\<close>

definition submissionData :: "FormData \<Rightarrow> Submission" where
  "submissionData f =
     \<lparr> sub_name = name f, sub_description = description f,
       sub_price = orZero (parseFloat (price f)) \<rparr>"

text \<open>
  \<^verbatim>\<open>
  const handleSubmit = async (e: FormEvent<HTMLFormElement>) => {
    e.preventDefault();
    const submissionData = { ...formData, price: parseFloat(formData.price) || 0 };
    if (editingId) {
      try {
        await apiClient.put(`/products/${editingId}/`, submissionData);
        setEditingId(null);
      } catch (error) {
        console.error('Gagal mengupdate produk:', error);
      }
    } else {
      try {
        await apiClient.post('/products/', submissionData);
      } catch (error) {
        console.error('Gagal membuat produk:', error);
      }
    }
    setFormData({ name: '', description: '', price: '' });
    fetchProducts();
  };
  \<close>
  The handler reads \<^verbatim>\<open>formData\<close> and \<^verbatim>\<open>editingId\<close> as they are when it starts.
  \<^verbatim>\<open>e.preventDefault()\<close> touches nothing of the world.
\<close>

definition handleSubmit :: "'s axios \<Rightarrow> ('s, unit) async" where
  "handleSubmit apiClient = (\<lambda>w.
     andThen
       (if truthy_id (editingId w) then
          tryCatch
            (andThen
               (apiClient_put apiClient (''/products/'' @ template_id (editingId w) @ ''/'')
                  (submissionData (formData w)))
               (\<lambda>response. setEditingId None))
            (\<lambda>e. console_error ''Gagal mengupdate produk:'' e)
        else
          tryCatch
            (apiClient_post apiClient ''/products/'' (submissionData (formData w)))
            (\<lambda>e. console_error ''Gagal membuat produk:'' e))
       (\<lambda>u. andThen
          (setFormData \<lparr> name = [], description = [], price = [] \<rparr>)
          (\<lambda>u. unawaited (fetchProducts apiClient)))
       w)"

text \<open>
  \<^verbatim>\<open>
  const handleEdit = (product: Product) => {
    setEditingId(product.id);
    setFormData({
      name: product.name,
      description: product.description || '',
      price: String(product.price),
    });
  };
  \<close>
  A synchronous function, with no way to throw: a plain update of the world.
\<close>

definition handleEdit :: "Product \<Rightarrow> 's world \<Rightarrow> 's world" where
  "handleEdit product w =
     w\<lparr> editingId := Some (product_id product),
        formData := \<lparr> name = product_name product,
                      description = orEmpty (product_description product),
                      price = js_String (product_price product) \<rparr> \<rparr>"

text \<open>
  \<^verbatim>\<open>
  const handleDelete = async (id: number) => {
    try {
      await apiClient.delete(`/products/${id}/`);
      fetchProducts();
    } catch (error) {
      console.error('Gagal menghapus produk:', error);
    }
  };
  \<close>
\<close>

definition handleDelete :: "'s axios \<Rightarrow> int \<Rightarrow> ('s, unit) async" where
  "handleDelete apiClient i =
     tryCatch
       (andThen
          (apiClient_delete apiClient (''/products/'' @ Number_toString i @ ''/''))
          (\<lambda>response. unawaited (fetchProducts apiClient)))
       (\<lambda>e. console_error ''Gagal menghapus produk:'' e)"

section \<open>Observing a run\<close>

text \<open>The events a run from \<open>w\<close> to \<open>w'\<close> added to the trace, and the requests among events.\<close>

definition issued :: "'s world \<Rightarrow> 's world \<Rightarrow> event list" where
  "issued w w' = drop (length (trace w)) (trace w')"

fun isRequest :: "event \<Rightarrow> bool" where
  "isRequest (Request m url body) = True"
| "isRequest (ConsoleError msg e) = False"
| "isRequest (UnhandledRejection e) = False"

fun isConsoleError :: "event \<Rightarrow> bool" where
  "isConsoleError (Request m url body) = False"
| "isConsoleError (ConsoleError msg e) = True"
| "isConsoleError (UnhandledRejection e) = False"

definition requests :: "event list \<Rightarrow> event list" where
  "requests evs = filter isRequest evs"

text \<open>The diagnostic a \<^verbatim>\<open>catch\<close> block prints for a settled request: none when it succeeded.\<close>

definition diagnostic :: "string \<Rightarrow> error + 'a \<Rightarrow> event list" where
  "diagnostic msg r = (case r of Inl e \<Rightarrow> [ConsoleError msg e] | Inr v \<Rightarrow> [])"

text \<open>
  The text that \<^verbatim>\<open>parseFloat\<close> looks at for a literal once leading white space and one
  sign are gone, and whether a numeral starts there: a digit, a dot followed by a
  digit, or the word \<^verbatim>\<open>Infinity\<close>.
\<close>

definition unsignedPart :: "string \<Rightarrow> string" where
  "unsignedPart s =
     (let trimmed = dropWhile isWhiteSpace s
      in if startsWith (CHR ''-'') trimmed \<or> startsWith (CHR ''+'') trimmed then tl trimmed
         else trimmed)"

definition startsNumeral :: "string \<Rightarrow> bool" where
  "startsNumeral u =
     (take 8 u = ''Infinity'' \<or>
      (case u of
         [] \<Rightarrow> False
       | c # r \<Rightarrow> isDecimalDigit c \<or>
                  (c = CHR ''.'' \<and> (case r of [] \<Rightarrow> False | d # r' \<Rightarrow> isDecimalDigit d))))"

section \<open>A scripted backend\<close>

text \<open>
  A stand-in for the backend, used to run the handlers on concrete inputs: its state is
  the list of outcomes still to be served, one per request, in order; a request on an
  empty script fails at the transport.
\<close>

definition serve :: "(error + Product list) list \<Rightarrow> (error + Product list) \<times> (error + Product list) list" where
  "serve script = (case script of [] \<Rightarrow> (Inl NetworkError, []) | r # rs \<Rightarrow> (r, rs))"

definition serve_unit :: "(error + Product list) list \<Rightarrow> (error + unit) \<times> (error + Product list) list" where
  "serve_unit script = (case serve script of
       (Inl e, rs) \<Rightarrow> (Inl e, rs)
     | (Inr v, rs) \<Rightarrow> (Inr (), rs))"

definition scripted :: "(error + Product list) list axios" where
  "scripted = \<lparr> axios_get = (\<lambda>url. serve),
                axios_post = (\<lambda>url body. serve_unit),
                axios_put = (\<lambda>url body. serve_unit),
                axios_delete = (\<lambda>url. serve_unit) \<rparr>"

text \<open>The page as first rendered, in front of a scripted backend.\<close>

definition initial :: "(error + Product list) list \<Rightarrow> (error + Product list) list world" where
  "initial script = \<lparr> products = [],
                      formData = \<lparr> name = [], description = [], price = [] \<rparr>,
                      editingId = None,
                      backend = script,
                      trace = [] \<rparr>"

definition pen :: Product where
  "pen = \<lparr> product_id = 1, product_name = ''Pen'', product_description = None,
           product_price = ''1.50'' \<rparr>"

section \<open>How the handlers run\<close>

lemmas async_defs = tryCatch_def andThen_def unawaited_def console_error_def
  setProducts_def setFormData_def setEditingId_def
  apiClient_get_def apiClient_post_def apiClient_put_def apiClient_delete_def

lemma fetchProducts_outcome: "fst (fetchProducts api w) = Inr ()"
  by (simp add: fetchProducts_def async_defs split: prod.splits sum.splits)

lemma unawaited_fetchProducts: "unawaited (fetchProducts api) w = fetchProducts api w"
proof -
  obtain w' where "fetchProducts api w = (Inr (), w')"
    using fetchProducts_outcome [of api w] by (cases "fetchProducts api w") simp
  then show ?thesis by (simp add: unawaited_def)
qed

lemma fetchProducts_editingId: "editingId (snd (fetchProducts api w)) = editingId w"
  by (simp add: fetchProducts_def async_defs split: prod.splits sum.splits)

lemma fetchProducts_formData: "formData (snd (fetchProducts api w)) = formData w"
  by (simp add: fetchProducts_def async_defs split: prod.splits sum.splits)

lemma fetchProducts_trace:
  "trace (snd (fetchProducts api w)) =
     trace w @ Request GET ''/products/'' None
       # diagnostic ''Gagal mengambil data produk:'' (fst (axios_get api ''/products/'' (backend w)))"
  by (simp add: fetchProducts_def async_defs diagnostic_def split: prod.splits sum.splits)

lemma handleSubmit_update:
  assumes "truthy_id (editingId w)"
  shows "handleSubmit api w =
    (case axios_put api (''/products/'' @ template_id (editingId w) @ ''/'')
            (submissionData (formData w)) (backend w) of
       (Inr u, s1) \<Rightarrow>
         fetchProducts api
           (w\<lparr>backend := s1,
              trace := trace w @ [Request PUT (''/products/'' @ template_id (editingId w) @ ''/'')
                                     (Some (submissionData (formData w)))],
              editingId := None,
              formData := \<lparr> name = [], description = [], price = [] \<rparr>\<rparr>)
     | (Inl e, s1) \<Rightarrow>
         fetchProducts api
           (w\<lparr>backend := s1,
              trace := trace w @ [Request PUT (''/products/'' @ template_id (editingId w) @ ''/'')
                                     (Some (submissionData (formData w))),
                                  ConsoleError ''Gagal mengupdate produk:'' e],
              formData := \<lparr> name = [], description = [], price = [] \<rparr>\<rparr>))"
  using assms
  by (simp add: handleSubmit_def tryCatch_def andThen_def console_error_def setFormData_def
      setEditingId_def apiClient_put_def unawaited_fetchProducts split: prod.splits sum.splits)

lemma handleSubmit_create:
  assumes "\<not> truthy_id (editingId w)"
  shows "handleSubmit api w =
    (case axios_post api ''/products/'' (submissionData (formData w)) (backend w) of
       (Inr u, s1) \<Rightarrow>
         fetchProducts api
           (w\<lparr>backend := s1,
              trace := trace w @ [Request POST ''/products/'' (Some (submissionData (formData w)))],
              formData := \<lparr> name = [], description = [], price = [] \<rparr>\<rparr>)
     | (Inl e, s1) \<Rightarrow>
         fetchProducts api
           (w\<lparr>backend := s1,
              trace := trace w @ [Request POST ''/products/'' (Some (submissionData (formData w))),
                                  ConsoleError ''Gagal membuat produk:'' e],
              formData := \<lparr> name = [], description = [], price = [] \<rparr>\<rparr>))"
  using assms
  by (simp add: handleSubmit_def tryCatch_def andThen_def console_error_def setFormData_def
      apiClient_post_def unawaited_fetchProducts split: prod.splits sum.splits)

lemma handleDelete_run:
  "handleDelete api i w =
    (case axios_delete api (''/products/'' @ Number_toString i @ ''/'') (backend w) of
       (Inr u, s1) \<Rightarrow>
         fetchProducts api
           (w\<lparr>backend := s1,
              trace := trace w @ [Request DELETE (''/products/'' @ Number_toString i @ ''/'') None]\<rparr>)
     | (Inl e, s1) \<Rightarrow>
         (Inr (), w\<lparr>backend := s1,
              trace := trace w @ [Request DELETE (''/products/'' @ Number_toString i @ ''/'') None,
                                  ConsoleError ''Gagal menghapus produk:'' e]\<rparr>))"
proof (cases "axios_delete api (''/products/'' @ Number_toString i @ ''/'') (backend w)")
  case (Pair r s1)
  show ?thesis
  proof (cases r)
    case (Inl e)
    with Pair show ?thesis
      by (simp add: handleDelete_def tryCatch_def andThen_def console_error_def
          apiClient_delete_def)
  next
    case (Inr u)
    obtain w' where run: "fetchProducts api
        (w\<lparr>backend := s1,
           trace := trace w @ [Request DELETE (''/products/'' @ Number_toString i @ ''/'') None]\<rparr>)
        = (Inr (), w')"
      using fetchProducts_outcome by (metis prod.collapse)
    with Pair Inr show ?thesis
      by (simp add: handleDelete_def tryCatch_def andThen_def apiClient_delete_def
          unawaited_fetchProducts)
  qed
qed

lemma requests_diagnostic: "requests (diagnostic msg r) = []"
  by (simp add: requests_def diagnostic_def split: sum.splits)

lemma requests_Cons_Request: "requests (Request m url body # evs) = Request m url body # requests evs"
  by (simp add: requests_def)

lemma requests_append: "requests (xs @ ys) = requests xs @ requests ys"
  by (simp add: requests_def)

lemma issued_append: "trace w' = trace w @ evs \<Longrightarrow> issued w w' = evs"
  by (simp add: issued_def)

lemma handleSubmit_update_trace:
  assumes "truthy_id (editingId w)"
  shows "trace (snd (handleSubmit api w)) =
     trace w @
       Request PUT (''/products/'' @ template_id (editingId w) @ ''/'')
                   (Some (submissionData (formData w)))
       # diagnostic ''Gagal mengupdate produk:''
           (fst (axios_put api (''/products/'' @ template_id (editingId w) @ ''/'')
                   (submissionData (formData w)) (backend w)))
       @ Request GET ''/products/'' None
       # diagnostic ''Gagal mengambil data produk:''
           (fst (axios_get api ''/products/''
              (snd (axios_put api (''/products/'' @ template_id (editingId w) @ ''/'')
                      (submissionData (formData w)) (backend w)))))"
  by (simp add: handleSubmit_update [OF assms] fetchProducts_trace diagnostic_def
      split: prod.splits sum.splits)

lemma handleSubmit_create_trace:
  assumes "\<not> truthy_id (editingId w)"
  shows "trace (snd (handleSubmit api w)) =
     trace w @
       Request POST ''/products/'' (Some (submissionData (formData w)))
       # diagnostic ''Gagal membuat produk:''
           (fst (axios_post api ''/products/'' (submissionData (formData w)) (backend w)))
       @ Request GET ''/products/'' None
       # diagnostic ''Gagal mengambil data produk:''
           (fst (axios_get api ''/products/''
              (snd (axios_post api ''/products/'' (submissionData (formData w)) (backend w)))))"
  by (simp add: handleSubmit_create [OF assms] fetchProducts_trace diagnostic_def
      split: prod.splits sum.splits)

lemma handleSubmit_outcome: "fst (handleSubmit api w) = Inr ()"
proof (cases "truthy_id (editingId w)")
  case True
  then show ?thesis
    by (simp add: handleSubmit_update fetchProducts_outcome split: prod.splits sum.splits)
next
  case False
  then show ?thesis
    by (simp add: handleSubmit_create fetchProducts_outcome split: prod.splits sum.splits)
qed

lemma handleSubmit_formData:
  "formData (snd (handleSubmit api w)) = \<lparr> name = [], description = [], price = [] \<rparr>"
proof (cases "truthy_id (editingId w)")
  case True
  then show ?thesis
    by (simp add: handleSubmit_update fetchProducts_formData split: prod.splits sum.splits)
next
  case False
  then show ?thesis
    by (simp add: handleSubmit_create fetchProducts_formData split: prod.splits sum.splits)
qed

lemma handleSubmit_update_editingId:
  assumes "truthy_id (editingId w)"
  shows "editingId (snd (handleSubmit api w)) =
     (case fst (axios_put api (''/products/'' @ template_id (editingId w) @ ''/'')
                  (submissionData (formData w)) (backend w)) of
        Inl e \<Rightarrow> editingId w
      | Inr u \<Rightarrow> None)"
  by (simp add: handleSubmit_update [OF assms] fetchProducts_editingId
      split: prod.splits sum.splits)

lemma handleSubmit_create_editingId:
  assumes "\<not> truthy_id (editingId w)"
  shows "editingId (snd (handleSubmit api w)) = editingId w"
  by (simp add: handleSubmit_create [OF assms] fetchProducts_editingId
      split: prod.splits sum.splits)

lemma handleSubmit_requests:
  "trace (snd (handleSubmit api w)) = trace w @ issued w (snd (handleSubmit api w)) \<and>
   requests (issued w (snd (handleSubmit api w))) =
     [if truthy_id (editingId w)
      then Request PUT (''/products/'' @ template_id (editingId w) @ ''/'')
             (Some (submissionData (formData w)))
      else Request POST ''/products/'' (Some (submissionData (formData w))),
      Request GET ''/products/'' None]"
proof (cases "truthy_id (editingId w)")
  case True
  note tr = handleSubmit_update_trace [OF True, of api]
  show ?thesis
    using True by (simp add: issued_append [OF tr] tr requests_Cons_Request requests_append requests_diagnostic)
next
  case False
  note tr = handleSubmit_create_trace [OF False, of api]
  show ?thesis
    using False by (simp add: issued_append [OF tr] tr requests_Cons_Request requests_append requests_diagnostic)
qed

lemma handleSubmit_events:
  "ev \<in> set (issued w (snd (handleSubmit api w))) \<Longrightarrow> isRequest ev \<or> isConsoleError ev"
proof (cases "truthy_id (editingId w)")
  case True
  note tr = handleSubmit_update_trace [OF True, of api]
  assume "ev \<in> set (issued w (snd (handleSubmit api w)))"
  then show ?thesis
    by (auto simp add: issued_append [OF tr] diagnostic_def split: sum.splits)
next
  case False
  note tr = handleSubmit_create_trace [OF False, of api]
  assume "ev \<in> set (issued w (snd (handleSubmit api w)))"
  then show ?thesis
    by (auto simp add: issued_append [OF tr] diagnostic_def split: sum.splits)
qed


section \<open>Fetching the collection\<close>

text \<open>
  C3. When the GET of the collection succeeds, the local collection becomes the very list
  the server returned (same entries, same order); when it fails, the local collection is
  the one held before and the only output is one diagnostic on the console.
\<close>

theorem fetchProducts_replaces_or_keeps:
  "(axios_get apiClient ''/products/'' (backend w) = (Inr served, s') \<longrightarrow>
      fetchProducts apiClient w =
        (Inr (), w\<lparr>backend := s', trace := trace w @ [Request GET ''/products/'' None],
                   products := served\<rparr>))
   \<and> (axios_get apiClient ''/products/'' (backend w) = (Inl e, s') \<longrightarrow>
      fetchProducts apiClient w =
        (Inr (), w\<lparr>backend := s',
                   trace := trace w @ [Request GET ''/products/'' None,
                                       ConsoleError ''Gagal mengambil data produk:'' e]\<rparr>))"
  by (simp add: fetchProducts_def tryCatch_def andThen_def apiClient_get_def
      setProducts_def console_error_def)

theorem fetchProducts_replaces_or_keeps_witness:
  "axios_get scripted ''/products/'' (backend (initial [Inr [pen]])) = (Inr [pen], [])
   \<and> fetchProducts scripted (initial [Inr [pen]]) =
        (Inr (), (initial [Inr [pen]])\<lparr>backend := [],
                   trace := trace (initial [Inr [pen]]) @ [Request GET ''/products/'' None],
                   products := [pen]\<rparr>)
   \<and> axios_get scripted ''/products/'' (backend ((initial [Inl (BadStatus 500)])\<lparr>products := [pen]\<rparr>))
        = (Inl (BadStatus 500), [])
   \<and> products (snd (fetchProducts scripted ((initial [Inl (BadStatus 500)])\<lparr>products := [pen]\<rparr>)))
        = [pen]"
proof -
  have ok: "axios_get scripted ''/products/'' (backend (initial [Inr [pen]])) = (Inr [pen], [])"
    by (simp add: scripted_def initial_def serve_def)
  have ko: "axios_get scripted ''/products/''
              (backend ((initial [Inl (BadStatus 500)])\<lparr>products := [pen]\<rparr>))
            = (Inl (BadStatus 500), [])"
    by (simp add: scripted_def initial_def serve_def)
  from fetchProducts_replaces_or_keeps
         [where apiClient = scripted and w = "initial [Inr [pen]]" and served = "[pen]" and s' = "[]"] ok
  have a: "fetchProducts scripted (initial [Inr [pen]]) =
        (Inr (), (initial [Inr [pen]])\<lparr>backend := [],
                   trace := trace (initial [Inr [pen]]) @ [Request GET ''/products/'' None],
                   products := [pen]\<rparr>)"
    by blast
  from fetchProducts_replaces_or_keeps
         [where apiClient = scripted and w = "(initial [Inl (BadStatus 500)])\<lparr>products := [pen]\<rparr>"
            and e = "BadStatus 500" and s' = "[]"] ko
  have "fetchProducts scripted ((initial [Inl (BadStatus 500)])\<lparr>products := [pen]\<rparr>) =
        (Inr (), ((initial [Inl (BadStatus 500)])\<lparr>products := [pen]\<rparr>)\<lparr>backend := [],
                   trace := trace ((initial [Inl (BadStatus 500)])\<lparr>products := [pen]\<rparr>) @ [Request GET ''/products/'' None,
                                       ConsoleError ''Gagal mengambil data produk:'' (BadStatus 500)]\<rparr>)"
    by blast
  then have b: "products (snd (fetchProducts scripted ((initial [Inl (BadStatus 500)])\<lparr>products := [pen]\<rparr>)))
        = [pen]"
    by simp
  from ok ko a b show ?thesis by blast
qed

section \<open>Starting an edit\<close>

text \<open>
  C6. From any prior state and for every product, starting an edit fills the form with the
  product's name, its description with \<^verbatim>\<open>null\<close> replaced by the empty text
  (\<^verbatim>\<open>description ?? ""\<close>), and \<^verbatim>\<open>String(price)\<close>, and makes the product's id the editing
  target.
\<close>

theorem handleEdit_fills_form:
  "formData (handleEdit p w) =
     \<lparr> name = product_name p,
       description = nullishEmpty (product_description p),
       price = js_String (product_price p) \<rparr>
   \<and> editingId (handleEdit p w) = Some (product_id p)"
  by (simp add: handleEdit_def orEmpty_def nullishEmpty_def split: option.splits)

text \<open>
  Counterexample to C8 as stated. The price of a product is text, and \<^verbatim>\<open>String\<close> of a text is that text: the price
  \<^verbatim>\<open>"1.50"\<close> reaches the form as it is, not as \<^verbatim>\<open>"1.5"\<close>.
\<close>

theorem handleEdit_pen_counterexample:
  "formData (handleEdit pen (initial [])) \<noteq> \<lparr> name = ''Pen'', description = [], price = ''1.5'' \<rparr>"
  by (simp add: handleEdit_def pen_def js_String_def)

text \<open>
  C8, amended. Starting an edit on the product
  \<^verbatim>\<open>{id: 1, name: "Pen", description: null, price: "1.50"}\<close> yields the form
  \<^verbatim>\<open>{name: "Pen", description: "", price: "1.50"}\<close>.
\<close>

theorem handleEdit_pen:
  "formData (handleEdit pen w) = \<lparr> name = ''Pen'', description = [], price = ''1.50'' \<rparr>"
  by (simp add: handleEdit_def pen_def js_String_def orEmpty_def)

section \<open>Deleting a product\<close>

text \<open>
  C9. Deleting a product leaves the editing target as it was, for every id, the id of the
  product being edited included.
\<close>

theorem handleDelete_keeps_editingId:
  "editingId (snd (handleDelete apiClient i w)) = editingId w"
  by (simp add: handleDelete_run fetchProducts_editingId split: prod.splits sum.splits)

text \<open>
  Counterexample to C2 as stated. When the DELETE request fails, the handler prints a diagnostic and fetches nothing:
  the call of \<^verbatim>\<open>fetchProducts\<close> sits inside the \<^verbatim>\<open>try\<close> block, after the \<^verbatim>\<open>await\<close>.
\<close>

theorem handleDelete_failure_counterexample:
  "fst (axios_delete scripted ''/products/1/'' (backend (initial [Inl (BadStatus 404)])))
     = Inl (BadStatus 404)
   \<and> trace (snd (handleDelete scripted 1 (initial [Inl (BadStatus 404)]))) =
       [Request DELETE ''/products/1/'' None,
        ConsoleError ''Gagal menghapus produk:'' (BadStatus 404)]
   \<and> Request GET ''/products/'' None
       \<notin> set (trace (snd (handleDelete scripted 1 (initial [Inl (BadStatus 404)]))))"
  by code_simp

text \<open>
  C2, amended. For every id that is a safe integer, deleting issues exactly one DELETE
  request, to that id's endpoint. When the request succeeds, exactly one fetch of the
  collection follows; when it fails, no fetch follows and the only other output is one
  diagnostic.
\<close>

theorem handleDelete_requests:
  assumes "isSafeInteger i"
  shows "trace (snd (handleDelete apiClient i w)) = trace w @ issued w (snd (handleDelete apiClient i w))
   \<and> (fst (axios_delete apiClient (''/products/'' @ Number_toString i @ ''/'') (backend w)) = Inr ()
        \<longrightarrow> requests (issued w (snd (handleDelete apiClient i w))) =
              [Request DELETE (''/products/'' @ Number_toString i @ ''/'') None,
               Request GET ''/products/'' None])
   \<and> (fst (axios_delete apiClient (''/products/'' @ Number_toString i @ ''/'') (backend w)) = Inl e
        \<longrightarrow> issued w (snd (handleDelete apiClient i w)) =
              [Request DELETE (''/products/'' @ Number_toString i @ ''/'') None,
               ConsoleError ''Gagal menghapus produk:'' e])"
proof (cases "axios_delete apiClient (''/products/'' @ Number_toString i @ ''/'') (backend w)")
  case (Pair r s1)
  show ?thesis
  proof (cases r)
    case (Inl e')
    with Pair show ?thesis
      by (simp add: handleDelete_run issued_def)
  next
    case (Inr u)
    with Pair show ?thesis
      by (simp add: handleDelete_run issued_def fetchProducts_trace
          requests_Cons_Request requests_diagnostic)
  qed
qed

section \<open>Submitting the form\<close>

text \<open>A text in which no numeral starts is not-a-number for \<^verbatim>\<open>parseFloat\<close>, and is sent as 0.\<close>

lemma unsignedLiteral_NaN: "\<not> startsNumeral u \<Longrightarrow> unsignedLiteral u = NaN"
  by (cases u) (auto simp add: unsignedLiteral_def startsNumeral_def startsWith_def Let_def
      split: list.splits)

lemma parseFloat_NaN: "\<not> startsNumeral (unsignedPart s) \<Longrightarrow> parseFloat s = NaN"
  by (auto simp add: parseFloat_def unsignedPart_def Let_def unsignedLiteral_NaN negate_def)

lemma submissionData_zero:
  "\<not> startsNumeral (unsignedPart (price f)) \<Longrightarrow>
   submissionData f = \<lparr> sub_name = name f, sub_description = description f, sub_price = Finite 0 \<rparr>"
  by (simp add: submissionData_def parseFloat_NaN orZero_def truthy_number_def)

text \<open>
  Counterexample to C1 as stated. A failed update leaves the page in edit mode: \<^verbatim>\<open>setEditingId(null)\<close> comes after the
  \<^verbatim>\<open>await\<close> inside the \<^verbatim>\<open>try\<close> block, so a rejected PUT skips it.
\<close>

theorem handleSubmit_editing_counterexample:
  "editingId ((initial [Inl NetworkError])\<lparr>editingId := Some 1\<rparr>) = Some 1
   \<and> editingId (snd (handleSubmit scripted ((initial [Inl NetworkError])\<lparr>editingId := Some 1\<rparr>)))
       \<noteq> None"
  by code_simp

text \<open>
  C1, amended. For every non-zero id that is a safe integer, submitting while that id is
  the editing target issues exactly one PUT request, to that id's endpoint, with the form
  as payload, and then one fetch of the collection. The editing target goes back to none
  when the PUT succeeds, and stays the id when it fails.
\<close>

theorem handleSubmit_editing:
  assumes "editingId w = Some i" and "i \<noteq> 0" and "isSafeInteger i"
  shows "trace (snd (handleSubmit apiClient w)) = trace w @ issued w (snd (handleSubmit apiClient w))
    \<and> requests (issued w (snd (handleSubmit apiClient w))) =
        [Request PUT (''/products/'' @ Number_toString i @ ''/'') (Some (submissionData (formData w))),
         Request GET ''/products/'' None]
    \<and> editingId (snd (handleSubmit apiClient w)) =
        (case fst (axios_put apiClient (''/products/'' @ Number_toString i @ ''/'')
                     (submissionData (formData w)) (backend w)) of
           Inl e \<Rightarrow> Some i
         | Inr u \<Rightarrow> None)"
proof -
  from assms have t: "truthy_id (editingId w)"
    by (simp add: truthy_id_def)
  from assms have url: "template_id (editingId w) = Number_toString i"
    by (simp add: template_id_def)
  from handleSubmit_requests [of apiClient w] t url
  have "trace (snd (handleSubmit apiClient w)) = trace w @ issued w (snd (handleSubmit apiClient w))
    \<and> requests (issued w (snd (handleSubmit apiClient w))) =
        [Request PUT (''/products/'' @ Number_toString i @ ''/'') (Some (submissionData (formData w))),
         Request GET ''/products/'' None]"
    by simp
  moreover from handleSubmit_update_editingId [OF t, of apiClient] url assms
  have "editingId (snd (handleSubmit apiClient w)) =
        (case fst (axios_put apiClient (''/products/'' @ Number_toString i @ ''/'')
                     (submissionData (formData w)) (backend w)) of
           Inl e \<Rightarrow> Some i
         | Inr u \<Rightarrow> None)"
    by (simp split: sum.splits)
  ultimately show ?thesis by blast
qed

text \<open>
  C4. Submitting with no editing target issues exactly one POST request, to the
  collection endpoint, and whatever its outcome the form ends up empty and the editing
  target is still none.
\<close>

theorem handleSubmit_browsing:
  assumes "editingId w = None"
  shows "trace (snd (handleSubmit apiClient w)) = trace w @ issued w (snd (handleSubmit apiClient w))
    \<and> requests (issued w (snd (handleSubmit apiClient w))) =
        [Request POST ''/products/'' (Some (submissionData (formData w))),
         Request GET ''/products/'' None]
    \<and> formData (snd (handleSubmit apiClient w)) = \<lparr> name = [], description = [], price = [] \<rparr>
    \<and> editingId (snd (handleSubmit apiClient w)) = None"
proof -
  from assms have t: "\<not> truthy_id (editingId w)"
    by (simp add: truthy_id_def)
  from handleSubmit_requests [of apiClient w] t
  have "trace (snd (handleSubmit apiClient w)) = trace w @ issued w (snd (handleSubmit apiClient w))
    \<and> requests (issued w (snd (handleSubmit apiClient w))) =
        [Request POST ''/products/'' (Some (submissionData (formData w))),
         Request GET ''/products/'' None]"
    by simp
  moreover from handleSubmit_create_editingId [OF t, of apiClient] assms
  have "editingId (snd (handleSubmit apiClient w)) = None"
    by simp
  ultimately show ?thesis
    by (simp add: handleSubmit_formData)
qed

text \<open>
  C10. When the id of the product being edited is 0, submitting issues a POST to the
  collection endpoint and no PUT: \<^verbatim>\<open>if (editingId)\<close> tests the id for truthiness.
\<close>

theorem handleSubmit_editing_zero:
  assumes "editingId w = Some 0"
  shows "requests (issued w (snd (handleSubmit apiClient w))) =
        [Request POST ''/products/'' (Some (submissionData (formData w))),
         Request GET ''/products/'' None]"
proof -
  from assms have "\<not> truthy_id (editingId w)"
    by (simp add: truthy_id_def)
  with handleSubmit_requests [of apiClient w] show ?thesis
    by simp
qed

text \<open>
  C5. In every state, when the request that submitting issues (the PUT when the editing
  target is truthy, the POST otherwise) fails: the handler still returns normally, the
  editing target is what it was, the form is empty, the collection is fetched again, the
  failure is on the console, and the handler put out nothing but requests and console
  diagnostics.
\<close>

theorem handleSubmit_failure:
  assumes "fst (if truthy_id (editingId w)
                then axios_put apiClient (''/products/'' @ template_id (editingId w) @ ''/'')
                       (submissionData (formData w)) (backend w)
                else axios_post apiClient ''/products/'' (submissionData (formData w)) (backend w))
           = Inl e"
  shows "fst (handleSubmit apiClient w) = Inr ()
    \<and> editingId (snd (handleSubmit apiClient w)) = editingId w
    \<and> formData (snd (handleSubmit apiClient w)) = \<lparr> name = [], description = [], price = [] \<rparr>
    \<and> trace (snd (handleSubmit apiClient w)) = trace w @ issued w (snd (handleSubmit apiClient w))
    \<and> requests (issued w (snd (handleSubmit apiClient w))) =
        [if truthy_id (editingId w)
         then Request PUT (''/products/'' @ template_id (editingId w) @ ''/'')
                (Some (submissionData (formData w)))
         else Request POST ''/products/'' (Some (submissionData (formData w))),
         Request GET ''/products/'' None]
    \<and> ConsoleError (if truthy_id (editingId w) then ''Gagal mengupdate produk:''
                     else ''Gagal membuat produk:'') e
        \<in> set (issued w (snd (handleSubmit apiClient w)))
    \<and> filter (\<lambda>ev. \<not> isRequest ev \<and> \<not> isConsoleError ev)
         (issued w (snd (handleSubmit apiClient w))) = []"
proof -
  have target: "editingId (snd (handleSubmit apiClient w)) = editingId w"
  proof (cases "truthy_id (editingId w)")
    case True
    with assms show ?thesis
      by (simp add: handleSubmit_update_editingId)
  next
    case False
    then show ?thesis
      by (simp add: handleSubmit_create_editingId)
  qed
  have logged: "ConsoleError (if truthy_id (editingId w) then ''Gagal mengupdate produk:''
                     else ''Gagal membuat produk:'') e
        \<in> set (issued w (snd (handleSubmit apiClient w)))"
  proof (cases "truthy_id (editingId w)")
    case True
    note tr = handleSubmit_update_trace [OF True, of apiClient]
    from assms True show ?thesis
      by (simp add: issued_append [OF tr] diagnostic_def)
  next
    case False
    note tr = handleSubmit_create_trace [OF False, of apiClient]
    from assms False show ?thesis
      by (simp add: issued_append [OF tr] diagnostic_def)
  qed
  have quiet: "filter (\<lambda>ev. \<not> isRequest ev \<and> \<not> isConsoleError ev)
                 (issued w (snd (handleSubmit apiClient w))) = []"
    using handleSubmit_events [of _ w apiClient] by (auto simp add: filter_empty_conv)
  from target logged quiet handleSubmit_requests [of apiClient w] show ?thesis
    by (simp add: handleSubmit_outcome handleSubmit_formData)
qed

text \<open>
  Counterexample to C7 as stated. A price text that is not a number but starts with one
  is sent as that number, not as 0:
  \<^verbatim>\<open>parseFloat("12abc")\<close> is 12.
\<close>

theorem handleSubmit_price_counterexample:
  "sub_price (submissionData \<lparr> name = ''Pen'', description = [], price = ''12abc'' \<rparr>) \<noteq> Finite 0
   \<and> requests (issued ((initial [])\<lparr>formData := \<lparr> name = ''Pen'', description = [], price = ''12abc'' \<rparr>\<rparr>)
      (snd (handleSubmit scripted
         ((initial [])\<lparr>formData := \<lparr> name = ''Pen'', description = [], price = ''12abc'' \<rparr>\<rparr>))))
   = [Request POST ''/products/''
        (Some \<lparr> sub_name = ''Pen'', sub_description = [], sub_price = Finite 12 \<rparr>),
      Request GET ''/products/'' None]"
proof -
  have body: "submissionData \<lparr> name = ''Pen'', description = [], price = ''12abc'' \<rparr>
      = \<lparr> sub_name = ''Pen'', sub_description = [], sub_price = Finite 12 \<rparr>"
    by (simp add: submissionData_def parseFloat_def unsignedLiteral_def isWhiteSpace_def
        startsWith_def isDecimalDigit_def digitsValue_def digitValue_def exponentPart_def
        pow10_def numberValue_def orZero_def truthy_number_def)
  from body handleSubmit_requests
      [of scripted "(initial [])\<lparr>formData := \<lparr> name = ''Pen'', description = [], price = ''12abc'' \<rparr>\<rparr>"]
  show ?thesis
    by (simp add: initial_def truthy_id_def)
qed

text \<open>
  C7, amended. For every form whose price text is empty or, more generally, has no
  numeral at its start (once leading white space and one sign are skipped: no digit, no
  dot followed by a digit, no \<^verbatim>\<open>Infinity\<close>), submitting sends the numeric price 0.
\<close>

theorem handleSubmit_price_zero:
  assumes "\<not> startsNumeral (unsignedPart (price (formData w)))"
  shows "requests (issued w (snd (handleSubmit apiClient w))) =
        [if truthy_id (editingId w)
         then Request PUT (''/products/'' @ template_id (editingId w) @ ''/'')
                (Some \<lparr> sub_name = name (formData w), sub_description = description (formData w),
                        sub_price = Finite 0 \<rparr>)
         else Request POST ''/products/''
                (Some \<lparr> sub_name = name (formData w), sub_description = description (formData w),
                        sub_price = Finite 0 \<rparr>),
         Request GET ''/products/'' None]"
  using handleSubmit_requests [of apiClient w] submissionData_zero [OF assms]
  by simp


section \<open>Concrete runs\<close>

text \<open>The theorems above, applied to the page in front of a scripted backend.\<close>

theorem handleSubmit_editing_witness:
  "editingId (handleEdit pen (initial [Inr [], Inr [pen]])) = Some 1 \<and> (1::int) \<noteq> 0
   \<and> isSafeInteger 1
   \<and> requests (issued (handleEdit pen (initial [Inr [], Inr [pen]]))
        (snd (handleSubmit scripted (handleEdit pen (initial [Inr [], Inr [pen]])))))
      = [Request PUT ''/products/1/''
           (Some \<lparr> sub_name = ''Pen'', sub_description = [], sub_price = Finite (3 / 2) \<rparr>),
         Request GET ''/products/'' None]
   \<and> editingId (snd (handleSubmit scripted (handleEdit pen (initial [Inr [], Inr [pen]])))) = None
   \<and> editingId (handleEdit pen (initial [Inl NetworkError])) = Some 1
   \<and> editingId (snd (handleSubmit scripted (handleEdit pen (initial [Inl NetworkError])))) = Some 1"
proof -
  have h1: "editingId (handleEdit pen (initial [Inr [], Inr [pen]])) = Some 1"
    and h1': "editingId (handleEdit pen (initial [Inl NetworkError])) = Some 1"
    by (simp_all add: handleEdit_def pen_def)
  have h2: "(1::int) \<noteq> 0" by simp
  have h3: "isSafeInteger 1" by (simp add: isSafeInteger_def)
  have url: "''/products/'' @ Number_toString 1 @ ''/'' = ''/products/1/''"
    by code_simp
  have body: "submissionData (formData (handleEdit pen (initial [Inr [], Inr [pen]])))
      = \<lparr> sub_name = ''Pen'', sub_description = [], sub_price = Finite (3 / 2) \<rparr>"
    by (simp add: handleEdit_def pen_def submissionData_def js_String_def orEmpty_def
        parseFloat_def unsignedLiteral_def isWhiteSpace_def startsWith_def isDecimalDigit_def
        digitsValue_def digitValue_def exponentPart_def pow10_def numberValue_def
        orZero_def truthy_number_def)
  have ok: "fst (axios_put scripted u b (backend (handleEdit pen (initial [Inr [], Inr [pen]])))) = Inr ()"
    and ko: "fst (axios_put scripted u b (backend (handleEdit pen (initial [Inl NetworkError])))) = Inl NetworkError"
    for u b
    by (simp_all add: scripted_def serve_unit_def serve_def handleEdit_def initial_def)
  from handleSubmit_editing [OF h1 h2 h3, of scripted] url body ok
  have a: "requests (issued (handleEdit pen (initial [Inr [], Inr [pen]]))
        (snd (handleSubmit scripted (handleEdit pen (initial [Inr [], Inr [pen]])))))
      = [Request PUT ''/products/1/''
           (Some \<lparr> sub_name = ''Pen'', sub_description = [], sub_price = Finite (3 / 2) \<rparr>),
         Request GET ''/products/'' None]
   \<and> editingId (snd (handleSubmit scripted (handleEdit pen (initial [Inr [], Inr [pen]])))) = None"
    by simp
  from handleSubmit_editing [OF h1' h2 h3, of scripted] ko
  have b: "editingId (snd (handleSubmit scripted (handleEdit pen (initial [Inl NetworkError])))) = Some 1"
    by simp
  from h1 h1' h2 h3 a b show ?thesis by blast
qed


theorem handleDelete_requests_witness:
  "isSafeInteger 1
   \<and> fst (axios_delete scripted (''/products/'' @ Number_toString 1 @ ''/'')
          (backend (initial [Inr [], Inr [pen]]))) = Inr ()
   \<and> requests (issued (initial [Inr [], Inr [pen]])
        (snd (handleDelete scripted 1 (initial [Inr [], Inr [pen]]))))
      = [Request DELETE ''/products/1/'' None, Request GET ''/products/'' None]
   \<and> fst (axios_delete scripted (''/products/'' @ Number_toString 1 @ ''/'')
          (backend (initial [Inl (BadStatus 404)]))) = Inl (BadStatus 404)
   \<and> issued (initial [Inl (BadStatus 404)])
        (snd (handleDelete scripted 1 (initial [Inl (BadStatus 404)])))
      = [Request DELETE ''/products/1/'' None,
         ConsoleError ''Gagal menghapus produk:'' (BadStatus 404)]"
proof -
  have safe: "isSafeInteger 1" by (simp add: isSafeInteger_def)
  have url: "''/products/'' @ Number_toString 1 @ ''/'' = ''/products/1/''"
    by code_simp
  have ok: "fst (axios_delete scripted (''/products/'' @ Number_toString 1 @ ''/'')
          (backend (initial [Inr [], Inr [pen]]))) = Inr ()"
    and ko: "fst (axios_delete scripted (''/products/'' @ Number_toString 1 @ ''/'')
          (backend (initial [Inl (BadStatus 404)]))) = Inl (BadStatus 404)"
    by (simp_all add: scripted_def serve_unit_def serve_def initial_def)
  from handleDelete_requests [OF safe, where apiClient = scripted and w = "initial [Inr [], Inr [pen]]"] ok
  have "requests (issued (initial [Inr [], Inr [pen]])
        (snd (handleDelete scripted 1 (initial [Inr [], Inr [pen]]))))
      = [Request DELETE (''/products/'' @ Number_toString 1 @ ''/'') None, Request GET ''/products/'' None]"
    by blast
  with url have a: "requests (issued (initial [Inr [], Inr [pen]])
        (snd (handleDelete scripted 1 (initial [Inr [], Inr [pen]]))))
      = [Request DELETE ''/products/1/'' None, Request GET ''/products/'' None]"
    by simp
  from handleDelete_requests
         [OF safe, where apiClient = scripted and w = "initial [Inl (BadStatus 404)]"
            and e = "BadStatus 404"] ko
  have "issued (initial [Inl (BadStatus 404)])
        (snd (handleDelete scripted 1 (initial [Inl (BadStatus 404)])))
      = [Request DELETE (''/products/'' @ Number_toString 1 @ ''/'') None,
         ConsoleError ''Gagal menghapus produk:'' (BadStatus 404)]"
    by blast
  with url have b: "issued (initial [Inl (BadStatus 404)])
        (snd (handleDelete scripted 1 (initial [Inl (BadStatus 404)])))
      = [Request DELETE ''/products/1/'' None,
         ConsoleError ''Gagal menghapus produk:'' (BadStatus 404)]"
    by simp
  from safe ok ko a b show ?thesis by blast
qed

theorem handleSubmit_browsing_witness:
  "editingId (initial [Inl (BadStatus 400)]) = None
   \<and> requests (issued (initial [Inl (BadStatus 400)])
        (snd (handleSubmit scripted (initial [Inl (BadStatus 400)]))))
      = [Request POST ''/products/''
           (Some \<lparr> sub_name = [], sub_description = [], sub_price = Finite 0 \<rparr>),
         Request GET ''/products/'' None]
   \<and> formData (snd (handleSubmit scripted (initial [Inl (BadStatus 400)])))
      = \<lparr> name = [], description = [], price = [] \<rparr>
   \<and> editingId (snd (handleSubmit scripted (initial [Inl (BadStatus 400)]))) = None"
proof -
  have h: "editingId (initial [Inl (BadStatus 400)]) = None"
    by (simp add: initial_def)
  have body: "submissionData (formData (initial [Inl (BadStatus 400)]))
      = \<lparr> sub_name = [], sub_description = [], sub_price = Finite 0 \<rparr>"
    by (simp add: initial_def submissionData_def parseFloat_def unsignedLiteral_def
        startsWith_def orZero_def truthy_number_def)
  from handleSubmit_browsing [OF h, of scripted] body h show ?thesis
    by simp
qed

theorem handleSubmit_editing_zero_witness:
  "editingId (handleEdit (pen\<lparr>product_id := 0\<rparr>) (initial [Inr [], Inr [pen]])) = Some 0
   \<and> requests (issued (handleEdit (pen\<lparr>product_id := 0\<rparr>) (initial [Inr [], Inr [pen]]))
        (snd (handleSubmit scripted
               (handleEdit (pen\<lparr>product_id := 0\<rparr>) (initial [Inr [], Inr [pen]])))))
      = [Request POST ''/products/''
           (Some \<lparr> sub_name = ''Pen'', sub_description = [], sub_price = Finite (3 / 2) \<rparr>),
         Request GET ''/products/'' None]"
proof -
  have h: "editingId (handleEdit (pen\<lparr>product_id := 0\<rparr>) (initial [Inr [], Inr [pen]])) = Some 0"
    by (simp add: handleEdit_def)
  have body: "submissionData (formData (handleEdit (pen\<lparr>product_id := 0\<rparr>) (initial [Inr [], Inr [pen]])))
      = \<lparr> sub_name = ''Pen'', sub_description = [], sub_price = Finite (3 / 2) \<rparr>"
    by (simp add: handleEdit_def pen_def submissionData_def js_String_def orEmpty_def
        parseFloat_def unsignedLiteral_def isWhiteSpace_def startsWith_def isDecimalDigit_def
        digitsValue_def digitValue_def exponentPart_def pow10_def numberValue_def
        orZero_def truthy_number_def)
  from handleSubmit_editing_zero [OF h, of scripted] body h show ?thesis
    by simp
qed

theorem handleSubmit_price_zero_witness:
  "\<not> startsNumeral (unsignedPart (price (formData
        ((initial [])\<lparr>formData := \<lparr> name = ''Pen'', description = [], price = ''abc'' \<rparr>\<rparr>))))
   \<and> requests (issued ((initial [])\<lparr>formData := \<lparr> name = ''Pen'', description = [], price = ''abc'' \<rparr>\<rparr>)
        (snd (handleSubmit scripted
               ((initial [])\<lparr>formData := \<lparr> name = ''Pen'', description = [], price = ''abc'' \<rparr>\<rparr>))))
      = [Request POST ''/products/''
           (Some \<lparr> sub_name = ''Pen'', sub_description = [], sub_price = Finite 0 \<rparr>),
         Request GET ''/products/'' None]"
proof -
  have h: "\<not> startsNumeral (unsignedPart (price (formData
        ((initial [])\<lparr>formData := \<lparr> name = ''Pen'', description = [], price = ''abc'' \<rparr>\<rparr>))))"
    by (simp add: startsNumeral_def unsignedPart_def isWhiteSpace_def startsWith_def
        isDecimalDigit_def)
  from handleSubmit_price_zero [OF h, of scripted] h show ?thesis
    by (simp add: initial_def truthy_id_def)
qed

theorem handleSubmit_failure_witness:
  "fst (if truthy_id (editingId (initial [Inl (BadStatus 400), Inr [pen]]))
        then axios_put scripted
               (''/products/'' @ template_id (editingId (initial [Inl (BadStatus 400), Inr [pen]])) @ ''/'')
               (submissionData (formData (initial [Inl (BadStatus 400), Inr [pen]])))
               (backend (initial [Inl (BadStatus 400), Inr [pen]]))
        else axios_post scripted ''/products/''
               (submissionData (formData (initial [Inl (BadStatus 400), Inr [pen]])))
               (backend (initial [Inl (BadStatus 400), Inr [pen]])))
     = Inl (BadStatus 400)
   \<and> fst (handleSubmit scripted (initial [Inl (BadStatus 400), Inr [pen]])) = Inr ()
   \<and> editingId (snd (handleSubmit scripted (initial [Inl (BadStatus 400), Inr [pen]]))) = None
   \<and> formData (snd (handleSubmit scripted (initial [Inl (BadStatus 400), Inr [pen]])))
      = \<lparr> name = [], description = [], price = [] \<rparr>
   \<and> fst (if truthy_id (editingId (handleEdit pen (initial [Inl NetworkError])))
        then axios_put scripted
               (''/products/'' @ template_id (editingId (handleEdit pen (initial [Inl NetworkError]))) @ ''/'')
               (submissionData (formData (handleEdit pen (initial [Inl NetworkError]))))
               (backend (handleEdit pen (initial [Inl NetworkError])))
        else axios_post scripted ''/products/''
               (submissionData (formData (handleEdit pen (initial [Inl NetworkError]))))
               (backend (handleEdit pen (initial [Inl NetworkError]))))
     = Inl NetworkError
   \<and> fst (handleSubmit scripted (handleEdit pen (initial [Inl NetworkError]))) = Inr ()
   \<and> editingId (snd (handleSubmit scripted (handleEdit pen (initial [Inl NetworkError])))) = Some 1
   \<and> formData (snd (handleSubmit scripted (handleEdit pen (initial [Inl NetworkError]))))
      = \<lparr> name = [], description = [], price = [] \<rparr>"
proof -
  have h: "fst (if truthy_id (editingId (initial [Inl (BadStatus 400), Inr [pen]]))
        then axios_put scripted
               (''/products/'' @ template_id (editingId (initial [Inl (BadStatus 400), Inr [pen]])) @ ''/'')
               (submissionData (formData (initial [Inl (BadStatus 400), Inr [pen]])))
               (backend (initial [Inl (BadStatus 400), Inr [pen]]))
        else axios_post scripted ''/products/''
               (submissionData (formData (initial [Inl (BadStatus 400), Inr [pen]])))
               (backend (initial [Inl (BadStatus 400), Inr [pen]])))
     = Inl (BadStatus 400)"
    by (simp add: initial_def truthy_id_def scripted_def serve_unit_def serve_def)
  have h': "fst (if truthy_id (editingId (handleEdit pen (initial [Inl NetworkError])))
        then axios_put scripted
               (''/products/'' @ template_id (editingId (handleEdit pen (initial [Inl NetworkError]))) @ ''/'')
               (submissionData (formData (handleEdit pen (initial [Inl NetworkError]))))
               (backend (handleEdit pen (initial [Inl NetworkError])))
        else axios_post scripted ''/products/''
               (submissionData (formData (handleEdit pen (initial [Inl NetworkError]))))
               (backend (handleEdit pen (initial [Inl NetworkError]))))
     = Inl NetworkError"
    by (simp add: handleEdit_def pen_def initial_def truthy_id_def scripted_def serve_unit_def
        serve_def)
  have e: "editingId (initial [Inl (BadStatus 400), Inr [pen]]) = None"
    by (simp add: initial_def)
  have e': "editingId (handleEdit pen (initial [Inl NetworkError])) = Some 1"
    by (simp add: handleEdit_def pen_def)
  from handleSubmit_failure [OF h] e
  have a: "fst (handleSubmit scripted (initial [Inl (BadStatus 400), Inr [pen]])) = Inr ()
   \<and> editingId (snd (handleSubmit scripted (initial [Inl (BadStatus 400), Inr [pen]]))) = None
   \<and> formData (snd (handleSubmit scripted (initial [Inl (BadStatus 400), Inr [pen]])))
      = \<lparr> name = [], description = [], price = [] \<rparr>"
    by simp
  from handleSubmit_failure [OF h'] e'
  have b: "fst (handleSubmit scripted (handleEdit pen (initial [Inl NetworkError]))) = Inr ()
   \<and> editingId (snd (handleSubmit scripted (handleEdit pen (initial [Inl NetworkError])))) = Some 1
   \<and> formData (snd (handleSubmit scripted (handleEdit pen (initial [Inl NetworkError]))))
      = \<lparr> name = [], description = [], price = [] \<rparr>"
    by simp
  from h h' a b show ?thesis by blast
qed

end
